theory Spec2Isabelle
  imports Complex_Main "HOL-Library.Multiset"
begin

section \<open>The Pong server of \<^verbatim>\<open>src/server/src/index.ts\<close>\<close>

text \<open>
  The server keeps one authoritative game state per room, advances the ball on a timer
  and reacts to three socket events: \<^verbatim>\<open>joinGame\<close>, \<^verbatim>\<open>paddleMove\<close> and
  \<^verbatim>\<open>disconnect\<close>.

  Modelling decisions:
  \<^item> a JavaScript \<^verbatim>\<open>number\<close> holding a coordinate or a velocity is an exact rational
    (\<open>rat\<close>): rounding of IEEE doubles is not modelled; the scores, which only count,
    are integers;
  \<^item> \<^verbatim>\<open>string | null\<close> is \<open>string option\<close>; JavaScript truthiness of such a value
    (\<^verbatim>\<open>!playerId\<close>, \<^verbatim>\<open>if (roomId)\<close>) treats both \<^verbatim>\<open>null\<close> and the empty string as false;
  \<^item> the two \<^verbatim>\<open>Map\<close>s are partial functions;
  \<^item> the payload of \<^verbatim>\<open>paddleMove\<close> has its declared type \<^verbatim>\<open>'up' | 'down'\<close>;
  \<^item> every call of \<^verbatim>\<open>Math.random()\<close> is an argument of the function that makes it;
  \<^item> the handlers mutate the room object stored in \<^verbatim>\<open>rooms\<close>; the model returns the
    new server state together with the list of messages emitted, in order;
  \<^item> \<^verbatim>\<open>socket.join\<close> and the delivery of a message to the members of a socket.io room
    belong to the transport and are not modelled; \<^verbatim>\<open>console.log\<close> is dropped;
  \<^item> the timer handle \<^verbatim>\<open>room.gameLoop\<close> is a flag: set while an interval is held by
    the room, cleared by \<^verbatim>\<open>stopGameLoop\<close>. One firing of the interval is the
    operation \<open>gameLoopTick\<close>.
\<close>

subsection \<open>Game constants\<close>

definition GAME_WIDTH :: rat where "GAME_WIDTH = 800"
definition GAME_HEIGHT :: rat where "GAME_HEIGHT = 400"
definition PADDLE_WIDTH :: rat where "PADDLE_WIDTH = 10"
definition PADDLE_HEIGHT :: rat where "PADDLE_HEIGHT = 80"
definition BALL_SIZE :: rat where "BALL_SIZE = 10"
definition PADDLE_SPEED :: rat where "PADDLE_SPEED = 5"
definition BALL_SPEED :: rat where "BALL_SPEED = 4"

lemmas game_constants =
  GAME_WIDTH_def GAME_HEIGHT_def PADDLE_WIDTH_def PADDLE_HEIGHT_def
  BALL_SIZE_def PADDLE_SPEED_def BALL_SPEED_def

subsection \<open>Game state and rooms\<close>

record Ball =
  ball_x :: rat
  ball_y :: rat
  ball_dx :: rat
  ball_dy :: rat

record Paddle =
  paddle_y :: rat
  playerId :: "string option"

record Paddles =
  left :: Paddle
  right :: Paddle

record Score =
  score_left :: int
  score_right :: int

record GameState =
  ball :: Ball
  paddles :: Paddles
  score :: Score
  gameActive :: bool
  players :: "string list"

record Room =
  room_id :: string
  gameState :: GameState
  gameLoop :: bool

record Server =
  rooms :: "string \<rightharpoonup> Room"
  playerRooms :: "string \<rightharpoonup> string"

text \<open>At start-up both maps are empty.\<close>

definition initServer :: Server where
  "initServer = \<lparr>rooms = Map.empty, playerRooms = Map.empty\<rparr>"

text \<open>\<^verbatim>\<open>Math.random() > 0.5 ? BALL_SPEED : -BALL_SPEED\<close>, for a draw \<open>r\<close>.\<close>

definition randomSpeed :: "rat \<Rightarrow> rat" where
  "randomSpeed r = (if r > 1 / 2 then BALL_SPEED else - BALL_SPEED)"

definition createGameState :: "rat \<Rightarrow> rat \<Rightarrow> GameState" where
  "createGameState r1 r2 =
     \<lparr>ball = \<lparr>ball_x = GAME_WIDTH / 2, ball_y = GAME_HEIGHT / 2,
              ball_dx = randomSpeed r1, ball_dy = randomSpeed r2\<rparr>,
      paddles = \<lparr>left = \<lparr>paddle_y = GAME_HEIGHT / 2 - PADDLE_HEIGHT / 2, playerId = None\<rparr>,
                 right = \<lparr>paddle_y = GAME_HEIGHT / 2 - PADDLE_HEIGHT / 2, playerId = None\<rparr>\<rparr>,
      score = \<lparr>score_left = 0, score_right = 0\<rparr>,
      gameActive = False,
      players = []\<rparr>"

subsection \<open>Physics: \<^verbatim>\<open>updateBall\<close> and \<^verbatim>\<open>resetBall\<close>\<close>

definition resetBall :: "rat \<Rightarrow> rat \<Rightarrow> GameState \<Rightarrow> GameState" where
  "resetBall r1 r2 gs =
     gs\<lparr>ball := \<lparr>ball_x = GAME_WIDTH / 2, ball_y = GAME_HEIGHT / 2,
                 ball_dx = randomSpeed r1, ball_dy = randomSpeed r2\<rparr>\<rparr>"

text \<open>The four commented blocks of \<^verbatim>\<open>updateBall\<close>, in the order of the source.\<close>

definition moveBall :: "Ball \<Rightarrow> Ball" where
  "moveBall b = b\<lparr>ball_x := ball_x b + ball_dx b, ball_y := ball_y b + ball_dy b\<rparr>"

definition wallCollision :: "Ball \<Rightarrow> Ball" where
  "wallCollision b =
     (if ball_y b \<le> 0 \<or> ball_y b \<ge> GAME_HEIGHT - BALL_SIZE
      then b\<lparr>ball_dy := - ball_dy b\<rparr> else b)"

definition leftPaddleCollision :: "Paddles \<Rightarrow> Ball \<Rightarrow> Ball" where
  "leftPaddleCollision ps b =
     (if ball_x b \<le> PADDLE_WIDTH \<and> ball_y b \<ge> paddle_y (left ps)
         \<and> ball_y b \<le> paddle_y (left ps) + PADDLE_HEIGHT
      then (let hitPos = (ball_y b - paddle_y (left ps)) / PADDLE_HEIGHT
            in b\<lparr>ball_dx := \<bar>ball_dx b\<bar>, ball_dy := (hitPos - 1 / 2) * BALL_SPEED * 2\<rparr>)
      else b)"

definition rightPaddleCollision :: "Paddles \<Rightarrow> Ball \<Rightarrow> Ball" where
  "rightPaddleCollision ps b =
     (if ball_x b \<ge> GAME_WIDTH - PADDLE_WIDTH - BALL_SIZE \<and> ball_y b \<ge> paddle_y (right ps)
         \<and> ball_y b \<le> paddle_y (right ps) + PADDLE_HEIGHT
      then (let hitPos = (ball_y b - paddle_y (right ps)) / PADDLE_HEIGHT
            in b\<lparr>ball_dx := - \<bar>ball_dx b\<bar>, ball_dy := (hitPos - 1 / 2) * BALL_SPEED * 2\<rparr>)
      else b)"

definition scoring :: "rat \<Rightarrow> rat \<Rightarrow> GameState \<Rightarrow> GameState" where
  "scoring r1 r2 gs =
     (if ball_x (ball gs) < 0
      then resetBall r1 r2 (gs\<lparr>score := (score gs)\<lparr>score_right := score_right (score gs) + 1\<rparr>\<rparr>)
      else if ball_x (ball gs) > GAME_WIDTH
      then resetBall r1 r2 (gs\<lparr>score := (score gs)\<lparr>score_left := score_left (score gs) + 1\<rparr>\<rparr>)
      else gs)"

text \<open>
  \<open>updateBall r1 r2\<close>: one physics step. The draws \<open>r1\<close>, \<open>r2\<close> are the two calls of
  \<^verbatim>\<open>Math.random()\<close> that \<^verbatim>\<open>resetBall\<close> makes when the ball leaves the board.
\<close>

definition updateBall :: "rat \<Rightarrow> rat \<Rightarrow> GameState \<Rightarrow> GameState" where
  "updateBall r1 r2 gs =
     scoring r1 r2
       (gs\<lparr>ball := rightPaddleCollision (paddles gs)
                     (leftPaddleCollision (paddles gs)
                       (wallCollision (moveBall (ball gs))))\<rparr>)"

text \<open>The ball's position after integration, the value \<^verbatim>\<open>updateBall\<close> tests for scoring.\<close>

definition integrated_x :: "GameState \<Rightarrow> rat" where
  "integrated_x gs = ball_x (ball gs) + ball_dx (ball gs)"

subsection \<open>Messages\<close>

datatype side = SLeft | SRight

datatype direction = Up | Down

datatype message =
    PaddleAssignment side
  | GameStateMsg GameState
  | GameStart
  | PaddleUpdate side rat
  | PlayerDisconnected

text \<open>\<^verbatim>\<open>socket.emit\<close> addresses one connection, \<^verbatim>\<open>io.to(roomId).emit\<close> a room.\<close>

datatype emit = ToSocket string message | ToRoom string message

subsection \<open>The tick loop\<close>

text \<open>JavaScript truthiness of a \<^verbatim>\<open>string | null\<close> (or \<^verbatim>\<open>string | undefined\<close>) value.\<close>

definition falsy :: "string option \<Rightarrow> bool" where
  "falsy v = (v = None \<or> v = Some [])"

definition startGameLoop :: "string \<Rightarrow> Server \<Rightarrow> Server" where
  "startGameLoop roomId s =
     (case rooms s roomId of
        None \<Rightarrow> s
      | Some room \<Rightarrow> s\<lparr>rooms := (rooms s)(roomId \<mapsto> room\<lparr>gameLoop := True\<rparr>)\<rparr>)"

definition stopGameLoop :: "string \<Rightarrow> Server \<Rightarrow> Server" where
  "stopGameLoop roomId s =
     (case rooms s roomId of
        None \<Rightarrow> s
      | Some room \<Rightarrow>
          if gameLoop room then s\<lparr>rooms := (rooms s)(roomId \<mapsto> room\<lparr>gameLoop := False\<rparr>)\<rparr>
          else s)"

text \<open>
  One firing of the interval set up by \<^verbatim>\<open>startGameLoop\<close>: it runs only while the room
  holds the timer, advances the ball and sends the state to the room.
\<close>

definition gameLoopTick :: "string \<Rightarrow> rat \<Rightarrow> rat \<Rightarrow> Server \<Rightarrow> Server \<times> emit list" where
  "gameLoopTick roomId r1 r2 s =
     (case rooms s roomId of
        None \<Rightarrow> (s, [])
      | Some room \<Rightarrow>
          if gameLoop room
          then (let gs = updateBall r1 r2 (gameState room)
                in (s\<lparr>rooms := (rooms s)(roomId \<mapsto> room\<lparr>gameState := gs\<rparr>)\<rparr>,
                    [ToRoom roomId (GameStateMsg gs)]))
          else (s, []))"

subsection \<open>The \<^verbatim>\<open>joinGame\<close> handler\<close>

text \<open>The block "Assign paddle": the first slot whose owner is falsy, left before right.\<close>

definition assignPaddle :: "string \<Rightarrow> GameState \<Rightarrow> GameState \<times> emit list" where
  "assignPaddle sid gs =
     (if falsy (playerId (left (paddles gs)))
      then (gs\<lparr>paddles := (paddles gs)\<lparr>left := (left (paddles gs))\<lparr>playerId := Some sid\<rparr>\<rparr>\<rparr>,
            [ToSocket sid (PaddleAssignment SLeft)])
      else if falsy (playerId (right (paddles gs)))
      then (gs\<lparr>paddles := (paddles gs)\<lparr>right := (right (paddles gs))\<lparr>playerId := Some sid\<rparr>\<rparr>\<rparr>,
            [ToSocket sid (PaddleAssignment SRight)])
      else (gs, []))"

text \<open>
  \<open>joinGame sid r1 r2\<close>: the handler run for connection \<open>sid\<close>. The draws are used
  only when the room has to be created.
\<close>

definition joinGame :: "string \<Rightarrow> rat \<Rightarrow> rat \<Rightarrow> Server \<Rightarrow> Server \<times> emit list" where
  "joinGame sid r1 r2 s =
     (let roomId = ''room1'';
          room = (case rooms s roomId of
                    None \<Rightarrow> \<lparr>room_id = roomId, gameState = createGameState r1 r2,
                              gameLoop = False\<rparr>
                  | Some r \<Rightarrow> r);
          gs1 = (gameState room)\<lparr>players := players (gameState room) @ [sid]\<rparr>;
          (gs2, out1) = assignPaddle sid gs1;
          start = (length (players gs2) = 2);
          gs3 = (if start then gs2\<lparr>gameActive := True\<rparr> else gs2);
          s1 = s\<lparr>rooms := (rooms s)(roomId \<mapsto> room\<lparr>gameState := gs3\<rparr>),
                 playerRooms := (playerRooms s)(sid \<mapsto> roomId)\<rparr>;
          s2 = (if start then startGameLoop roomId s1 else s1);
          out2 = (if start then [ToRoom roomId GameStart] else [])
      in (s2, out1 @ out2 @ [ToSocket sid (GameStateMsg gs3)]))"

subsection \<open>The \<^verbatim>\<open>paddleMove\<close> handler\<close>

text \<open>The new offset of the chosen paddle (the two guarded assignments).\<close>

definition movedPaddleY :: "direction \<Rightarrow> rat \<Rightarrow> rat" where
  "movedPaddleY d y =
     (if d = Up \<and> y > 0 then max 0 (y - PADDLE_SPEED)
      else if d = Down \<and> y < GAME_HEIGHT - PADDLE_HEIGHT
      then min (GAME_HEIGHT - PADDLE_HEIGHT) (y + PADDLE_SPEED)
      else y)"

text \<open>The variable \<^verbatim>\<open>paddle\<close>: which of the two paddle objects it refers to, if any.\<close>

definition ownedPaddle :: "string \<Rightarrow> Paddles \<Rightarrow> side option" where
  "ownedPaddle sid ps =
     (if playerId (left ps) = Some sid then Some SLeft
      else if playerId (right ps) = Some sid then Some SRight
      else None)"

definition paddleOf :: "side \<Rightarrow> Paddles \<Rightarrow> Paddle" where
  "paddleOf sd ps = (case sd of SLeft \<Rightarrow> left ps | SRight \<Rightarrow> right ps)"

definition setPaddleY :: "side \<Rightarrow> rat \<Rightarrow> Paddles \<Rightarrow> Paddles" where
  "setPaddleY sd v ps =
     (case sd of
        SLeft \<Rightarrow> ps\<lparr>left := (left ps)\<lparr>paddle_y := v\<rparr>\<rparr>
      | SRight \<Rightarrow> ps\<lparr>right := (right ps)\<lparr>paddle_y := v\<rparr>\<rparr>)"

text \<open>
  The body of the handler once the room is resolved, as a function of the room's game
  state: the paddle owned by \<open>sid\<close>, if any, gets its new offset.
\<close>

definition movePaddle :: "string \<Rightarrow> direction \<Rightarrow> GameState \<Rightarrow> GameState" where
  "movePaddle sid d gs =
     (case ownedPaddle sid (paddles gs) of
        None \<Rightarrow> gs
      | Some sd \<Rightarrow>
          gs\<lparr>paddles := setPaddleY sd (movedPaddleY d (paddle_y (paddleOf sd (paddles gs))))
                           (paddles gs)\<rparr>)"

definition paddleMove :: "string \<Rightarrow> direction \<Rightarrow> Server \<Rightarrow> Server \<times> emit list" where
  "paddleMove sid d s =
     (case playerRooms s sid of
        None \<Rightarrow> (s, [])
      | Some roomId \<Rightarrow>
          if roomId = [] then (s, [])
          else
            (case rooms s roomId of
               None \<Rightarrow> (s, [])
             | Some room \<Rightarrow>
                 (case ownedPaddle sid (paddles (gameState room)) of
                    None \<Rightarrow> (s, [])
                  | Some sd \<Rightarrow>
                      (let gs' = movePaddle sid d (gameState room)
                       in (s\<lparr>rooms := (rooms s)(roomId \<mapsto> room\<lparr>gameState := gs'\<rparr>)\<rparr>,
                           [ToRoom roomId
                              (PaddleUpdate
                                 (if playerId (left (paddles gs')) = Some sid then SLeft else SRight)
                                 (paddle_y (paddleOf sd (paddles gs'))))])))))"

subsection \<open>The \<^verbatim>\<open>disconnect\<close> handler\<close>

text \<open>The blocks "Remove player from game state" and "Reset paddle assignments".\<close>

definition removePlayer :: "string \<Rightarrow> GameState \<Rightarrow> GameState" where
  "removePlayer sid gs =
     (let gs1 = gs\<lparr>players := filter (\<lambda>i. i \<noteq> sid) (players gs)\<rparr>;
          gs2 = (if playerId (left (paddles gs1)) = Some sid
                 then gs1\<lparr>paddles := (paddles gs1)\<lparr>left := (left (paddles gs1))\<lparr>playerId := None\<rparr>\<rparr>\<rparr>
                 else gs1)
      in (if playerId (right (paddles gs2)) = Some sid
          then gs2\<lparr>paddles := (paddles gs2)\<lparr>right := (right (paddles gs2))\<lparr>playerId := None\<rparr>\<rparr>\<rparr>
          else gs2))"

definition disconnect :: "string \<Rightarrow> Server \<Rightarrow> Server \<times> emit list" where
  "disconnect sid s =
     (case playerRooms s sid of
        None \<Rightarrow> (s, [])
      | Some roomId \<Rightarrow>
          if roomId = [] then (s, [])
          else
            (let (s1, out) =
                   (case rooms s roomId of
                      None \<Rightarrow> (s, [])
                    | Some room \<Rightarrow>
                        (let gs = removePlayer sid (gameState room)
                         in if length (players gs) = 0
                            then (let sa = stopGameLoop roomId
                                             (s\<lparr>rooms := (rooms s)(roomId \<mapsto> room\<lparr>gameState := gs\<rparr>)\<rparr>)
                                  in (sa\<lparr>rooms := (rooms sa)(roomId := None)\<rparr>, []))
                            else (stopGameLoop roomId
                                    (s\<lparr>rooms := (rooms s)(roomId \<mapsto>
                                          room\<lparr>gameState := gs\<lparr>gameActive := False\<rparr>\<rparr>)\<rparr>),
                                  [ToRoom roomId PlayerDisconnected])))
             in (s1\<lparr>playerRooms := (playerRooms s1)(sid := None)\<rparr>, out)))"

subsection \<open>Runs of the server\<close>

datatype event =
    JoinGame string rat rat
  | PaddleMove string direction
  | Disconnect string
  | Tick string rat rat

fun step :: "event \<Rightarrow> Server \<Rightarrow> Server \<times> emit list" where
  "step (JoinGame sid r1 r2) s = joinGame sid r1 r2 s"
| "step (PaddleMove sid d) s = paddleMove sid d s"
| "step (Disconnect sid) s = disconnect sid s"
| "step (Tick roomId r1 r2) s = gameLoopTick roomId r1 r2 s"

text \<open>The state after a sequence of events, from \<open>s\<close>.\<close>

fun exec :: "event list \<Rightarrow> Server \<Rightarrow> Server" where
  "exec [] s = s"
| "exec (e # es) s = exec es (fst (step e s))"

subsection \<open>Runs of the physics alone\<close>

datatype physics_op = Advance rat rat | Reset rat rat

fun applyOp :: "physics_op \<Rightarrow> GameState \<Rightarrow> GameState" where
  "applyOp (Advance r1 r2) gs = updateBall r1 r2 gs"
| "applyOp (Reset r1 r2) gs = resetBall r1 r2 gs"

fun physicsRun :: "physics_op list \<Rightarrow> GameState \<Rightarrow> GameState" where
  "physicsRun [] gs = gs"
| "physicsRun (op # ops) gs = physicsRun ops (applyOp op gs)"

text \<open>
  The scenario of the specification: the ball at \<open>(395, 200)\<close> moving by \<open>(4, 4)\<close>, the
  right paddle spanning \<open>[160, 240]\<close>, in a running two-player game.
\<close>

definition scenarioState :: GameState where
  "scenarioState =
     \<lparr>ball = \<lparr>ball_x = 395, ball_y = 200, ball_dx = 4, ball_dy = 4\<rparr>,
      paddles = \<lparr>left = \<lparr>paddle_y = 160, playerId = Some ''A''\<rparr>,
                 right = \<lparr>paddle_y = 160, playerId = Some ''B''\<rparr>\<rparr>,
      score = \<lparr>score_left = 0, score_right = 0\<rparr>,
      gameActive = True,
      players = [''A'', ''B'']\<rparr>"

subsection \<open>Invariants of a room and of the server\<close>

text \<open>The owners of the two paddle slots, left first.\<close>

definition owners :: "Paddles \<Rightarrow> string list" where
  "owners ps =
     (case playerId (left ps) of None \<Rightarrow> [] | Some a \<Rightarrow> [a])
     @ (case playerId (right ps) of None \<Rightarrow> [] | Some b \<Rightarrow> [b])"

text \<open>
  A room in which every player owns a slot: the players are the slot owners (as
  multisets), no identifier is empty, and the game is active exactly with two players.
\<close>

definition room_ok :: "GameState \<Rightarrow> bool" where
  "room_ok gs \<longleftrightarrow>
     mset (players gs) = mset (owners (paddles gs))
     \<and> [] \<notin> set (players gs)
     \<and> (gameActive gs \<longleftrightarrow> length (players gs) = 2)"

definition server_ok :: "Server \<Rightarrow> bool" where
  "server_ok s \<longleftrightarrow>
     (\<forall>rid r. rooms s rid = Some r \<longrightarrow> room_ok (gameState r))
     \<and> (\<forall>c rid. playerRooms s c = Some rid \<longrightarrow>
           rid \<noteq> [] \<and> (\<exists>r. rooms s rid = Some r \<and> c \<in> set (players (gameState r))))"

text \<open>
  A join is \<open>joinAllowed\<close> when the connection identifier is not empty and the room has
  fewer than two players; a run is \<open>admissible\<close> when each of its joins is.
\<close>

fun joinAllowed :: "event \<Rightarrow> Server \<Rightarrow> bool" where
  "joinAllowed (JoinGame sid r1 r2) s =
     (sid \<noteq> [] \<and> (case rooms s ''room1'' of
                      None \<Rightarrow> True
                    | Some room \<Rightarrow> length (players (gameState room)) < 2))"
| "joinAllowed (PaddleMove sid d) s = True"
| "joinAllowed (Disconnect sid) s = True"
| "joinAllowed (Tick roomId r1 r2) s = True"

fun admissible :: "event list \<Rightarrow> Server \<Rightarrow> bool" where
  "admissible [] s = True"
| "admissible (e # es) s = (joinAllowed e s \<and> admissible es (fst (step e s)))"

text \<open>Both paddle offsets within the board.\<close>

definition paddles_bounded :: "GameState \<Rightarrow> bool" where
  "paddles_bounded gs \<longleftrightarrow>
     0 \<le> paddle_y (left (paddles gs)) \<and> paddle_y (left (paddles gs)) \<le> GAME_HEIGHT - PADDLE_HEIGHT
     \<and> 0 \<le> paddle_y (right (paddles gs)) \<and> paddle_y (right (paddles gs)) \<le> GAME_HEIGHT - PADDLE_HEIGHT"

text \<open>Every room of the server has its paddles within the board.\<close>

definition rooms_bounded :: "Server \<Rightarrow> bool" where
  "rooms_bounded s \<longleftrightarrow> (\<forall>rid r. rooms s rid = Some r \<longrightarrow> paddles_bounded (gameState r))"

text \<open>Two states in which the next step takes the ball out, on the left and on the right.\<close>

definition leftOut :: GameState where
  "leftOut = (createGameState 0 0)\<lparr>ball := \<lparr>ball_x = 2, ball_y = 100, ball_dx = - 4, ball_dy = 4\<rparr>\<rparr>"

definition rightOut :: GameState where
  "rightOut = (createGameState 0 0)\<lparr>ball := \<lparr>ball_x = 798, ball_y = 100, ball_dx = 4, ball_dy = 4\<rparr>\<rparr>"

section \<open>Properties of the physics step\<close>

lemma collisions_keep_x:
  "ball_x (rightPaddleCollision ps (leftPaddleCollision ps (wallCollision (moveBall b))))
     = ball_x b + ball_dx b"
  by (simp add: rightPaddleCollision_def leftPaddleCollision_def wallCollision_def
      moveBall_def Let_def)

lemma randomSpeed_abs: "\<bar>randomSpeed r\<bar> = BALL_SPEED"
  by (simp add: randomSpeed_def BALL_SPEED_def)

lemma resetBall_dx: "\<bar>ball_dx (ball (resetBall r1 r2 gs))\<bar> = BALL_SPEED"
  by (simp add: resetBall_def randomSpeed_abs)

lemma moveBall_dx: "ball_dx (moveBall b) = ball_dx b"
  by (simp add: moveBall_def)

lemma wallCollision_dx: "ball_dx (wallCollision b) = ball_dx b"
  by (simp add: wallCollision_def)

lemma leftPaddleCollision_dx: "\<bar>ball_dx (leftPaddleCollision ps b)\<bar> = \<bar>ball_dx b\<bar>"
  by (simp add: leftPaddleCollision_def Let_def)

lemma rightPaddleCollision_dx: "\<bar>ball_dx (rightPaddleCollision ps b)\<bar> = \<bar>ball_dx b\<bar>"
  by (simp add: rightPaddleCollision_def Let_def)

lemma scoring_dx:
  "\<bar>ball_dx (ball gs)\<bar> = BALL_SPEED \<Longrightarrow> \<bar>ball_dx (ball (scoring r1 r2 gs))\<bar> = BALL_SPEED"
  by (simp add: scoring_def resetBall_dx)

lemma updateBall_dx:
  "\<bar>ball_dx (ball gs)\<bar> = BALL_SPEED \<Longrightarrow> \<bar>ball_dx (ball (updateBall r1 r2 gs))\<bar> = BALL_SPEED"
  unfolding updateBall_def
  by (rule scoring_dx)
     (simp add: rightPaddleCollision_dx leftPaddleCollision_dx wallCollision_dx moveBall_dx)

lemma physicsRun_dx:
  "\<bar>ball_dx (ball gs)\<bar> = BALL_SPEED \<Longrightarrow> \<bar>ball_dx (ball (physicsRun ops gs))\<bar> = BALL_SPEED"
proof (induction ops arbitrary: gs)
  case Nil
  then show ?case by simp
next
  case (Cons op ops)
  have "\<bar>ball_dx (ball (applyOp op gs))\<bar> = BALL_SPEED"
    using Cons.prems by (cases op) (simp_all add: updateBall_dx resetBall_dx)
  then show ?case by (simp add: Cons.IH)
qed

lemma updateBall_keeps:
  "paddles (updateBall r1 r2 gs) = paddles gs"
  "players (updateBall r1 r2 gs) = players gs"
  "gameActive (updateBall r1 r2 gs) = gameActive gs"
  by (simp_all add: updateBall_def scoring_def resetBall_def)

text \<open>
  C8. From a freshly created game state, after any sequence of physics steps and ball
  resets, the horizontal velocity has magnitude exactly \<open>BALL_SPEED\<close>.
\<close>

theorem dx_magnitude_invariant:
  "\<bar>ball_dx (ball (physicsRun ops (createGameState r1 r2)))\<bar> = BALL_SPEED"
  by (rule physicsRun_dx) (simp add: createGameState_def randomSpeed_abs)

text \<open>
  C3, as the specification states it, fails: from the scenario state one physics step
  leaves \<open>dx = 4\<close> and \<open>dy = 4\<close>, because \<open>x = 399\<close> is far from the right paddle's
  trigger \<open>x \<ge> GAME_WIDTH - PADDLE_WIDTH - BALL_SIZE = 780\<close>.
\<close>

theorem scenario_collision_counterexample:
  "ball (updateBall 0 0 scenarioState)
     = \<lparr>ball_x = 399, ball_y = 204, ball_dx = 4, ball_dy = 4\<rparr>
   \<and> \<not> (ball_dx (ball (updateBall 0 0 scenarioState)) = - 4
          \<and> ball_dy (ball (updateBall 0 0 scenarioState)) = 0)"
  by (simp add: scenarioState_def updateBall_def scoring_def resetBall_def
      rightPaddleCollision_def leftPaddleCollision_def wallCollision_def moveBall_def
      game_constants Let_def)

text \<open>
  C3, amended. With the ball at \<open>(395, 200)\<close>, velocity \<open>(4, 4)\<close> and the right paddle
  spanning \<open>[160, 240]\<close>, one physics step triggers no paddle collision: the ball moves
  to \<open>(399, 204)\<close> and keeps \<open>dx = 4\<close>, \<open>dy = 4\<close>, whatever the rest of the state. The
  outcome \<open>dx = -4\<close>, \<open>dy = 0\<close> is the one of a step that ends at \<open>(780, 200)\<close>, that is
  of the ball at \<open>(776, 196)\<close>.
\<close>

theorem scenario_step:
  "ball (updateBall r1 r2
          (gs\<lparr>ball := \<lparr>ball_x = 395, ball_y = 200, ball_dx = 4, ball_dy = 4\<rparr>,
              paddles := (paddles gs)\<lparr>right := (right (paddles gs))\<lparr>paddle_y := 160\<rparr>\<rparr>\<rparr>))
     = \<lparr>ball_x = 399, ball_y = 204, ball_dx = 4, ball_dy = 4\<rparr>
   \<and> ball (updateBall r1 r2
          (gs\<lparr>ball := \<lparr>ball_x = 776, ball_y = 196, ball_dx = 4, ball_dy = 4\<rparr>,
              paddles := (paddles gs)\<lparr>right := (right (paddles gs))\<lparr>paddle_y := 160\<rparr>\<rparr>\<rparr>))
     = \<lparr>ball_x = 780, ball_y = 200, ball_dx = - 4, ball_dy = 0\<rparr>"
  by (simp add: updateBall_def scoring_def resetBall_def rightPaddleCollision_def
      leftPaddleCollision_def wallCollision_def moveBall_def game_constants Let_def)

text \<open>
  C9. One invocation of \<^verbatim>\<open>updateBall\<close> changes only the ball and the score: both
  paddles (offset and owner), the player list and the active flag are as before.
\<close>

theorem updateBall_frame:
  "paddles (updateBall r1 r2 gs) = paddles gs
   \<and> players (updateBall r1 r2 gs) = players gs
   \<and> gameActive (updateBall r1 r2 gs) = gameActive gs"
  by (simp add: updateBall_def scoring_def resetBall_def)

section \<open>What each handler does to the two maps\<close>

subsection \<open>\<^verbatim>\<open>joinGame\<close>\<close>

lemma assignPaddle_frame:
  "score (fst (assignPaddle sid gs)) = score gs"
  "ball (fst (assignPaddle sid gs)) = ball gs"
  "players (fst (assignPaddle sid gs)) = players gs"
  "gameActive (fst (assignPaddle sid gs)) = gameActive gs"
  "paddle_y (left (paddles (fst (assignPaddle sid gs)))) = paddle_y (left (paddles gs))"
  "paddle_y (right (paddles (fst (assignPaddle sid gs)))) = paddle_y (right (paddles gs))"
  by (simp_all add: assignPaddle_def)

lemma joinGame_other_room:
  "rid \<noteq> ''room1'' \<Longrightarrow> rooms (fst (joinGame sid r1 r2 s)) rid = rooms s rid"
  by (simp add: joinGame_def startGameLoop_def Let_def case_prod_beta)

lemma joinGame_playerRooms:
  "playerRooms (fst (joinGame sid r1 r2 s)) = (playerRooms s)(sid \<mapsto> ''room1'')"
  by (simp add: joinGame_def startGameLoop_def Let_def case_prod_beta)

lemma joinGame_room1:
  "rooms (fst (joinGame sid r1 r2 s)) ''room1'' =
     (let room = (case rooms s ''room1'' of
                    None \<Rightarrow> \<lparr>room_id = ''room1'', gameState = createGameState r1 r2,
                              gameLoop = False\<rparr>
                  | Some r \<Rightarrow> r);
          gs2 = fst (assignPaddle sid
                  ((gameState room)\<lparr>players := players (gameState room) @ [sid]\<rparr>));
          start = (length (players (gameState room)) = 1)
      in Some (room\<lparr>gameState := (if start then gs2\<lparr>gameActive := True\<rparr> else gs2),
                    gameLoop := (if start then True else gameLoop room)\<rparr>))"
  by (simp add: joinGame_def startGameLoop_def Let_def assignPaddle_frame case_prod_beta)

lemma joinGame_players:
  "\<exists>r'. rooms (fst (joinGame sid r1 r2 s)) ''room1'' = Some r'
     \<and> players (gameState r') =
         (case rooms s ''room1'' of None \<Rightarrow> [] | Some r \<Rightarrow> players (gameState r)) @ [sid]"
  by (cases "rooms s ''room1''")
     (simp_all add: joinGame_room1 Let_def assignPaddle_frame createGameState_def)

subsection \<open>\<^verbatim>\<open>paddleMove\<close>\<close>

lemma setPaddleY_frame:
  "playerId (left (setPaddleY sd v ps)) = playerId (left ps)"
  "playerId (right (setPaddleY sd v ps)) = playerId (right ps)"
  "paddle_y (left (setPaddleY sd v ps)) = (if sd = SLeft then v else paddle_y (left ps))"
  "paddle_y (right (setPaddleY sd v ps)) = (if sd = SRight then v else paddle_y (right ps))"
  by (cases sd; simp add: setPaddleY_def)+

lemma paddleOf_setPaddleY: "paddle_y (paddleOf sd (setPaddleY sd v ps)) = v"
  by (cases sd) (simp_all add: paddleOf_def setPaddleY_def)

lemma movePaddle_frame:
  "ball (movePaddle sid d gs) = ball gs"
  "score (movePaddle sid d gs) = score gs"
  "players (movePaddle sid d gs) = players gs"
  "gameActive (movePaddle sid d gs) = gameActive gs"
  "playerId (left (paddles (movePaddle sid d gs))) = playerId (left (paddles gs))"
  "playerId (right (paddles (movePaddle sid d gs))) = playerId (right (paddles gs))"
  by (simp_all add: movePaddle_def setPaddleY_frame split: option.splits)

lemma paddleMove_playerRooms: "playerRooms (fst (paddleMove sid d s)) = playerRooms s"
  by (simp add: paddleMove_def Let_def split: option.splits)

lemma paddleMove_rooms:
  "rooms (fst (paddleMove sid d s)) rid =
     map_option
       (\<lambda>r. if playerRooms s sid = Some rid \<and> rid \<noteq> []
            then r\<lparr>gameState := movePaddle sid d (gameState r)\<rparr> else r)
       (rooms s rid)"
proof (cases "playerRooms s sid = Some rid \<and> rid \<noteq> []")
  case True
  then show ?thesis
    by (cases "rooms s rid")
       (auto simp: paddleMove_def Let_def movePaddle_def split: option.splits)
next
  case False
  then have "rooms (fst (paddleMove sid d s)) rid = rooms s rid"
    by (auto simp: paddleMove_def Let_def split: option.splits)
  with False show ?thesis by (cases "rooms s rid") auto
qed

subsection \<open>The tick\<close>

lemma gameLoopTick_playerRooms: "playerRooms (fst (gameLoopTick roomId r1 r2 s)) = playerRooms s"
  by (simp add: gameLoopTick_def Let_def split: option.splits)

lemma gameLoopTick_rooms:
  "rooms (fst (gameLoopTick roomId r1 r2 s)) rid =
     map_option
       (\<lambda>r. if rid = roomId \<and> gameLoop r
            then r\<lparr>gameState := updateBall r1 r2 (gameState r)\<rparr> else r)
       (rooms s rid)"
  by (cases "rooms s roomId"; cases "rooms s rid") (auto simp: gameLoopTick_def Let_def)

subsection \<open>\<^verbatim>\<open>disconnect\<close>\<close>

lemma removePlayer_frame:
  "ball (removePlayer sid gs) = ball gs"
  "score (removePlayer sid gs) = score gs"
  "gameActive (removePlayer sid gs) = gameActive gs"
  "players (removePlayer sid gs) = filter (\<lambda>i. i \<noteq> sid) (players gs)"
  "paddle_y (left (paddles (removePlayer sid gs))) = paddle_y (left (paddles gs))"
  "paddle_y (right (paddles (removePlayer sid gs))) = paddle_y (right (paddles gs))"
  "playerId (left (paddles (removePlayer sid gs)))
     = (if playerId (left (paddles gs)) = Some sid then None else playerId (left (paddles gs)))"
  "playerId (right (paddles (removePlayer sid gs)))
     = (if playerId (right (paddles gs)) = Some sid then None else playerId (right (paddles gs)))"
  by (simp_all add: removePlayer_def Let_def)

lemma gameLoop_clear:
  "\<not> gameLoop r \<Longrightarrow> r\<lparr>gameState := g, gameLoop := False\<rparr> = r\<lparr>gameState := g\<rparr>"
  by (cases r) simp

lemma disconnect_unregistered:
  "playerRooms s sid = None \<or> playerRooms s sid = Some [] \<Longrightarrow> disconnect sid s = (s, [])"
  by (auto simp: disconnect_def)

lemma disconnect_no_room:
  "playerRooms s sid = Some roomId \<Longrightarrow> roomId \<noteq> [] \<Longrightarrow> rooms s roomId = None \<Longrightarrow>
   disconnect sid s = (s\<lparr>playerRooms := (playerRooms s)(sid := None)\<rparr>, [])"
  by (simp add: disconnect_def)

lemma disconnect_last:
  "playerRooms s sid = Some roomId \<Longrightarrow> roomId \<noteq> [] \<Longrightarrow> rooms s roomId = Some room \<Longrightarrow>
   filter (\<lambda>i. i \<noteq> sid) (players (gameState room)) = [] \<Longrightarrow>
   disconnect sid s =
     (s\<lparr>rooms := (rooms s)(roomId := None), playerRooms := (playerRooms s)(sid := None)\<rparr>, [])"
  by (simp add: disconnect_def removePlayer_frame Let_def stopGameLoop_def)

lemma disconnect_remaining:
  "playerRooms s sid = Some roomId \<Longrightarrow> roomId \<noteq> [] \<Longrightarrow> rooms s roomId = Some room \<Longrightarrow>
   filter (\<lambda>i. i \<noteq> sid) (players (gameState room)) \<noteq> [] \<Longrightarrow>
   disconnect sid s =
     (s\<lparr>rooms := (rooms s)(roomId \<mapsto>
            room\<lparr>gameState := (removePlayer sid (gameState room))\<lparr>gameActive := False\<rparr>,
                 gameLoop := False\<rparr>),
        playerRooms := (playerRooms s)(sid := None)\<rparr>,
      [ToRoom roomId PlayerDisconnected])"
  by (simp add: disconnect_def removePlayer_frame Let_def stopGameLoop_def gameLoop_clear)

lemma disconnect_rooms:
  assumes "rooms (fst (disconnect sid s)) rid = Some r'"
  shows "\<exists>r. rooms s rid = Some r
           \<and> (r' = r \<or> r' = r\<lparr>gameState := (removePlayer sid (gameState r))\<lparr>gameActive := False\<rparr>,
                               gameLoop := False\<rparr>)"
proof (cases "playerRooms s sid")
  case None
  with assms show ?thesis by (simp add: disconnect_unregistered)
next
  case (Some roomId)
  show ?thesis
  proof (cases "roomId = []")
    case True
    with Some assms show ?thesis by (simp add: disconnect_unregistered)
  next
    case ne: False
    show ?thesis
    proof (cases "rooms s roomId")
      case None
      with Some ne assms show ?thesis by (simp add: disconnect_no_room)
    next
      case (Some room)
      show ?thesis
      proof (cases "filter (\<lambda>i. i \<noteq> sid) (players (gameState room)) = []")
        case True
        with assms show ?thesis
          by (simp add: disconnect_last [OF \<open>playerRooms s sid = Some roomId\<close> ne Some True]
              split: if_splits)
      next
        case False
        with assms Some show ?thesis
          by (auto simp: disconnect_remaining [OF \<open>playerRooms s sid = Some roomId\<close> ne Some False]
              split: if_splits)
      qed
    qed
  qed
qed

lemma joinGame_rooms:
  assumes "rooms (fst (joinGame sid r1 r2 s)) rid = Some r'"
  shows "rooms s rid = Some r' \<or>
         (\<exists>room gs2. (rooms s rid = Some room
                \<or> rooms s rid = None \<and> room = \<lparr>room_id = ''room1'', gameState = createGameState r1 r2,
                              gameLoop = False\<rparr>)
            \<and> gs2 = fst (assignPaddle sid ((gameState room)\<lparr>players := players (gameState room) @ [sid]\<rparr>))
            \<and> (gameState r' = gs2 \<or> gameState r' = gs2\<lparr>gameActive := True\<rparr>))"
proof (cases "rid = ''room1''")
  case False
  with assms show ?thesis by (simp add: joinGame_other_room)
next
  case True
  with assms show ?thesis
    by (cases "rooms s ''room1''") (auto simp: joinGame_room1 Let_def split: if_splits)
qed

subsection \<open>The timer is held only by a room with at least two players\<close>

text \<open>
  \<^verbatim>\<open>startGameLoop\<close> is called when a join brings the player list to length two, and
  every disconnect that reaches the room clears the timer. So a room that holds the
  timer has at least two players, and \<^verbatim>\<open>startGameLoop\<close> never replaces a live timer:
  the flag \<open>gameLoop\<close> loses nothing.
\<close>

lemma timer_step:
  assumes inv: "\<forall>rid r. rooms s rid = Some r \<longrightarrow> gameLoop r
      \<longrightarrow> 2 \<le> length (players (gameState r))"
    and r': "rooms (fst (step e s)) rid = Some r'" and loop: "gameLoop r'"
  shows "2 \<le> length (players (gameState r'))"
proof (cases e)
  case (JoinGame sid r1 r2)
  show ?thesis
  proof (cases "rid = ''room1''")
    case True
    show ?thesis
    proof (cases "rooms s ''room1''")
      case None
      with r' loop JoinGame True show ?thesis
        by (auto simp: joinGame_room1 Let_def assignPaddle_frame createGameState_def
            split: if_splits)
    next
      case (Some a)
      with inv have "gameLoop a \<longrightarrow> 2 \<le> length (players (gameState a))" by blast
      with r' loop JoinGame True Some show ?thesis
        by (auto simp: joinGame_room1 Let_def assignPaddle_frame split: if_splits)
    qed
  next
    case False
    with r' loop inv JoinGame show ?thesis by (simp add: joinGame_other_room)
  qed
next
  case (PaddleMove sid d)
  with r' loop inv show ?thesis
    by (auto simp: paddleMove_rooms movePaddle_frame split: if_splits)
next
  case (Disconnect sid)
  with r' have "rooms (fst (disconnect sid s)) rid = Some r'" by simp
  from disconnect_rooms [OF this] loop inv show ?thesis by auto
next
  case (Tick roomId r1 r2)
  with r' loop inv show ?thesis
    by (auto simp: gameLoopTick_rooms updateBall_keeps split: if_splits)
qed

lemma timer_needs_two_players:
  "rooms (exec evs initServer) rid = Some r \<Longrightarrow> gameLoop r \<Longrightarrow>
     2 \<le> length (players (gameState r))"
proof -
  have "\<forall>rid r. rooms (exec evs s) rid = Some r \<longrightarrow> gameLoop r
      \<longrightarrow> 2 \<le> length (players (gameState r))"
    if "\<forall>rid r. rooms s rid = Some r \<longrightarrow> gameLoop r \<longrightarrow> 2 \<le> length (players (gameState r))"
    for s
    using that
  proof (induction evs arbitrary: s)
    case Nil
    then show ?case by simp
  next
    case (Cons e es)
    have "\<forall>rid r. rooms (fst (step e s)) rid = Some r \<longrightarrow> gameLoop r
        \<longrightarrow> 2 \<le> length (players (gameState r))"
      using timer_step [OF Cons.prems] by blast
    from Cons.IH [OF this] show ?case by simp
  qed
  from this [of initServer] show
    "rooms (exec evs initServer) rid = Some r \<Longrightarrow> gameLoop r \<Longrightarrow>
       2 \<le> length (players (gameState r))"
    by (simp add: initServer_def)
qed

section \<open>The invariants are kept\<close>

lemma room_ok_length: "room_ok gs \<Longrightarrow> length (players gs) = length (owners (paddles gs))"
  unfolding room_ok_def by (blast dest: mset_eq_length)

lemma owners_length:
  "length (owners ps) =
     (if playerId (left ps) = None then 0 else 1) + (if playerId (right ps) = None then 0 else 1)"
  by (simp add: owners_def split: option.splits)

lemma room_ok_slots:
  assumes "room_ok gs"
  shows "gameActive gs \<longleftrightarrow>
           playerId (left (paddles gs)) \<noteq> None \<and> playerId (right (paddles gs)) \<noteq> None"
proof -
  from assms have "gameActive gs \<longleftrightarrow> length (owners (paddles gs)) = 2"
    by (simp add: room_ok_length [symmetric] room_ok_def)
  then show ?thesis by (simp add: owners_length)
qed

lemma room_ok_fresh: "room_ok (createGameState r1 r2)"
  by (simp add: room_ok_def owners_def createGameState_def)

lemma room_ok_join:
  assumes "room_ok gs" "sid \<noteq> []" "length (players gs) < 2"
  shows "room_ok (let gs2 = fst (assignPaddle sid (gs\<lparr>players := players gs @ [sid]\<rparr>))
                  in if length (players gs) = 1 then gs2\<lparr>gameActive := True\<rparr> else gs2)"
proof -
  from assms(1) have "length (players gs) = length (owners (paddles gs))"
    by (rule room_ok_length)
  then have len: "length (players gs) = (if playerId (left (paddles gs)) = None then 0 else 1)
      + (if playerId (right (paddles gs)) = None then 0 else 1)"
    by (simp add: owners_length)
  from assms(1) have ne: "[] \<notin> set (owners (paddles gs))"
    by (auto simp: room_ok_def dest: mset_eq_setD)
  show ?thesis
    using assms len ne
    by (cases "playerId (left (paddles gs))"; cases "playerId (right (paddles gs))")
       (auto simp: room_ok_def owners_def assignPaddle_def falsy_def Let_def)
qed

lemma room_ok_remove:
  assumes "room_ok gs" "sid \<in> set (players gs)"
  shows "room_ok ((removePlayer sid gs)\<lparr>gameActive := False\<rparr>)"
proof -
  have own: "owners (paddles (removePlayer sid gs)) = filter (\<lambda>i. i \<noteq> sid) (owners (paddles gs))"
    by (auto simp: owners_def removePlayer_frame split: option.splits)
  have "length (filter (\<lambda>i. i \<noteq> sid) (players gs)) < length (players gs)"
    using assms(2) by (simp add: length_filter_less)
  moreover from assms(1) have "length (players gs) \<le> 2"
    by (simp add: room_ok_length owners_length)
  ultimately have "length (filter (\<lambda>i. i \<noteq> sid) (players gs)) \<noteq> 2" by simp
  with assms(1) show ?thesis
    by (simp add: room_ok_def own removePlayer_frame)
qed

lemma room_ok_movePaddle: "room_ok gs \<Longrightarrow> room_ok (movePaddle sid d gs)"
  by (simp add: room_ok_def owners_def movePaddle_frame)

lemma room_ok_updateBall: "room_ok gs \<Longrightarrow> room_ok (updateBall r1 r2 gs)"
  by (simp add: room_ok_def updateBall_keeps)

lemma server_ok_room: "server_ok s \<Longrightarrow> rooms s rid = Some r \<Longrightarrow> room_ok (gameState r)"
  unfolding server_ok_def by blast

lemma server_ok_index:
  "server_ok s \<Longrightarrow> playerRooms s c = Some rid \<Longrightarrow>
     rid \<noteq> [] \<and> (\<exists>r. rooms s rid = Some r \<and> c \<in> set (players (gameState r)))"
  unfolding server_ok_def by blast

lemma server_ok_init: "server_ok initServer"
  by (simp add: server_ok_def initServer_def)

lemma server_ok_join:
  assumes ok: "server_ok s" and adm: "joinAllowed (JoinGame sid r1 r2) s"
  shows "server_ok (fst (joinGame sid r1 r2 s))"
proof -
  let ?s' = "fst (joinGame sid r1 r2 s)"
  have rooms_ok: "room_ok (gameState r')" if "rooms ?s' rid = Some r'" for rid r'
  proof (cases "rid = ''room1''")
    case False
    with that ok show ?thesis using server_ok_room [of s rid r'] by (simp add: joinGame_other_room)
  next
    case True
    define room where "room = (case rooms s ''room1'' of
        None \<Rightarrow> \<lparr>room_id = ''room1'', gameState = createGameState r1 r2, gameLoop = False\<rparr>
      | Some r \<Rightarrow> r)"
    have 1: "room_ok (gameState room)"
      using ok by (auto simp: room_def room_ok_fresh split: option.splits dest: server_ok_room)
    have 2: "length (players (gameState room)) < 2"
      using adm by (auto simp: room_def createGameState_def split: option.splits)
    have 3: "sid \<noteq> []" using adm by simp
    from that True have "gameState r' =
        (let gs2 = fst (assignPaddle sid ((gameState room)\<lparr>players := players (gameState room) @ [sid]\<rparr>))
         in if length (players (gameState room)) = 1 then gs2\<lparr>gameActive := True\<rparr> else gs2)"
      by (auto simp: joinGame_room1 Let_def room_def [symmetric])
    then show ?thesis using room_ok_join [OF 1 3 2] by simp
  qed
  have index_ok: "rid \<noteq> [] \<and> (\<exists>r. rooms ?s' rid = Some r \<and> c \<in> set (players (gameState r)))"
    if "playerRooms ?s' c = Some rid" for c rid
  proof (cases "rid = ''room1''")
    case True
    obtain r' where r': "rooms ?s' ''room1'' = Some r'"
      "players (gameState r') =
         (case rooms s ''room1'' of None \<Rightarrow> [] | Some r \<Rightarrow> players (gameState r)) @ [sid]"
      using joinGame_players by blast
    show ?thesis
    proof (cases "c = sid")
      case True
      with r' \<open>rid = ''room1''\<close> show ?thesis by simp
    next
      case False
      with that have "playerRooms s c = Some rid" by (simp add: joinGame_playerRooms)
      with ok \<open>rid = ''room1''\<close> obtain r where "rooms s ''room1'' = Some r" "c \<in> set (players (gameState r))"
        using server_ok_index by blast
      with r' \<open>rid = ''room1''\<close> show ?thesis by simp
    qed
  next
    case False
    with that have "playerRooms s c = Some rid"
      by (auto simp: joinGame_playerRooms split: if_splits)
    with ok False show ?thesis using server_ok_index [of s c rid] by (simp add: joinGame_other_room)
  qed
  show ?thesis unfolding server_ok_def using rooms_ok index_ok by blast
qed

lemma server_ok_map:
  assumes ok: "server_ok s"
    and rooms': "\<And>rid. rooms s' rid = map_option (f rid) (rooms s rid)"
    and index': "playerRooms s' = playerRooms s"
    and f_ok: "\<And>rid r. room_ok (gameState r) \<Longrightarrow> room_ok (gameState (f rid r))"
    and f_players: "\<And>rid r. players (gameState (f rid r)) = players (gameState r)"
  shows "server_ok s'"
  unfolding server_ok_def
proof (intro conjI allI impI)
  fix rid r' assume "rooms s' rid = Some r'"
  then obtain r where "rooms s rid = Some r" "r' = f rid r" by (auto simp: rooms')
  with ok f_ok show "room_ok (gameState r')" by (auto dest: server_ok_room)
next
  fix c rid assume "playerRooms s' c = Some rid"
  with ok index' show "rid \<noteq> []" using server_ok_index [of s c rid] by simp
next
  fix c rid assume "playerRooms s' c = Some rid"
  with ok index' obtain r where "rooms s rid = Some r" "c \<in> set (players (gameState r))"
    using server_ok_index [of s c rid] by auto
  then show "\<exists>r. rooms s' rid = Some r \<and> c \<in> set (players (gameState r))"
    by (simp add: rooms' f_players)
qed

lemma server_ok_paddleMove:
  assumes ok: "server_ok s"
  shows "server_ok (fst (paddleMove sid d s))"
  by (rule server_ok_map [OF ok paddleMove_rooms paddleMove_playerRooms])
     (simp_all add: room_ok_movePaddle movePaddle_frame)

lemma server_ok_tick:
  assumes ok: "server_ok s"
  shows "server_ok (fst (gameLoopTick roomId r1 r2 s))"
  by (rule server_ok_map [OF ok gameLoopTick_rooms gameLoopTick_playerRooms])
     (simp_all add: room_ok_updateBall updateBall_keeps)

lemma server_ok_disconnect:
  assumes ok: "server_ok s"
  shows "server_ok (fst (disconnect sid s))"
proof (cases "playerRooms s sid")
  case None
  with ok show ?thesis by (simp add: disconnect_unregistered)
next
  case (Some roomId)
  with ok obtain room where ne: "roomId \<noteq> []" and room: "rooms s roomId = Some room"
    and mem: "sid \<in> set (players (gameState room))"
    using server_ok_index [of s sid roomId] by auto
  from ok room have rok: "room_ok (gameState room)" by (rule server_ok_room)
  have others: "c \<in> set (filter (\<lambda>i. i \<noteq> sid) (players (gameState room)))"
    if "playerRooms s c = Some roomId" "c \<noteq> sid" for c
    using that ok room server_ok_index [of s c roomId] by auto
  show ?thesis
  proof (cases "filter (\<lambda>i. i \<noteq> sid) (players (gameState room)) = []")
    case True
    with others have "\<And>c. playerRooms s c = Some roomId \<Longrightarrow> c = sid" by fastforce
    with ok show ?thesis
      unfolding disconnect_last [OF Some ne room True] server_ok_def
      by (auto split: if_splits)
  next
    case False
    have "room_ok ((removePlayer sid (gameState room))\<lparr>gameActive := False\<rparr>)"
      using rok mem by (rule room_ok_remove)
    with ok others show ?thesis
      unfolding disconnect_remaining [OF Some ne room False] server_ok_def
      by (auto simp: removePlayer_frame split: if_splits)
  qed
qed

lemma server_ok_step: "server_ok s \<Longrightarrow> joinAllowed e s \<Longrightarrow> server_ok (fst (step e s))"
  by (cases e) (simp_all add: server_ok_join server_ok_paddleMove server_ok_disconnect
      server_ok_tick del: joinAllowed.simps)

lemma server_ok_exec: "server_ok s \<Longrightarrow> admissible evs s \<Longrightarrow> server_ok (exec evs s)"
  by (induction evs arbitrary: s) (simp_all add: server_ok_step)

text \<open>The definitions a concrete run unfolds to.\<close>

lemmas run_defs =
  joinGame_def assignPaddle_def falsy_def startGameLoop_def stopGameLoop_def
  disconnect_def removePlayer_def paddleMove_def movePaddle_def ownedPaddle_def paddleOf_def
  setPaddleY_def movedPaddleY_def gameLoopTick_def createGameState_def initServer_def
  randomSpeed_def Let_def

section \<open>The claims about rooms and connections\<close>

text \<open>
  C2, as the specification states it, fails: connections A, B and C join (C gets no
  paddle), then C disconnects. The handler clears \<open>gameActive\<close> because players
  remain, although both paddle slots are still owned, by A and by B.
\<close>

theorem active_counterexample:
  "map_option (gameActive \<circ> gameState)
     (rooms (exec [JoinGame ''A'' 0 0, JoinGame ''B'' 0 0, JoinGame ''C'' 0 0, Disconnect ''C'']
        initServer) ''room1'') = Some False
   \<and> map_option (playerId \<circ> left \<circ> paddles \<circ> gameState)
     (rooms (exec [JoinGame ''A'' 0 0, JoinGame ''B'' 0 0, JoinGame ''C'' 0 0, Disconnect ''C'']
        initServer) ''room1'') = Some (Some ''A'')
   \<and> map_option (playerId \<circ> right \<circ> paddles \<circ> gameState)
     (rooms (exec [JoinGame ''A'' 0 0, JoinGame ''B'' 0 0, JoinGame ''C'' 0 0, Disconnect ''C'']
        initServer) ''room1'') = Some (Some ''B'')"
  by (simp add: run_defs)

text \<open>
  C2, amended. In every state reached from the initial server by joins (of connections
  with a non-empty identifier, each arriving while the room has fewer than two
  players), paddle moves, disconnects and ticks, a room is active if and only if both
  of its paddle slots are owned.
\<close>

theorem active_iff_both_slots:
  assumes "admissible evs initServer" "rooms (exec evs initServer) rid = Some room"
  shows "gameActive (gameState room) \<longleftrightarrow>
           playerId (left (paddles (gameState room))) \<noteq> None
           \<and> playerId (right (paddles (gameState room))) \<noteq> None"
proof -
  have "server_ok (exec evs initServer)"
    using server_ok_init assms(1) by (rule server_ok_exec)
  with assms(2) have "room_ok (gameState room)" by (auto dest: server_ok_room)
  then show ?thesis by (rule room_ok_slots)
qed

theorem active_iff_both_slots_witness:
  "admissible [JoinGame ''A'' 0 0, JoinGame ''B'' 0 0, Disconnect ''A'', JoinGame ''C'' 0 0]
     initServer
   \<and> rooms (exec [JoinGame ''A'' 0 0, JoinGame ''B'' 0 0, Disconnect ''A'', JoinGame ''C'' 0 0]
        initServer) ''room1''
      = Some \<lparr>room_id = ''room1'',
          gameState = \<lparr>ball = \<lparr>ball_x = 400, ball_y = 200, ball_dx = - 4, ball_dy = - 4\<rparr>,
            paddles = \<lparr>left = \<lparr>paddle_y = 160, playerId = Some ''C''\<rparr>,
                       right = \<lparr>paddle_y = 160, playerId = Some ''B''\<rparr>\<rparr>,
            score = \<lparr>score_left = 0, score_right = 0\<rparr>,
            gameActive = True, players = [''B'', ''C'']\<rparr>,
          gameLoop = True\<rparr>
   \<and> (True \<longleftrightarrow> Some ''C'' \<noteq> (None :: string option) \<and> Some ''B'' \<noteq> (None :: string option))"
proof -
  let ?evs = "[JoinGame ''A'' 0 0, JoinGame ''B'' 0 0, Disconnect ''A'', JoinGame ''C'' 0 0]"
  let ?room = "\<lparr>room_id = ''room1'',
          gameState = \<lparr>ball = \<lparr>ball_x = 400, ball_y = 200, ball_dx = - 4, ball_dy = - 4\<rparr>,
            paddles = \<lparr>left = \<lparr>paddle_y = 160, playerId = Some ''C''\<rparr>,
                       right = \<lparr>paddle_y = 160, playerId = Some ''B''\<rparr>\<rparr>,
            score = \<lparr>score_left = 0, score_right = 0\<rparr>,
            gameActive = True, players = [''B'', ''C'']\<rparr>,
          gameLoop = True\<rparr>"
  have adm: "admissible ?evs initServer" by (simp add: run_defs)
  have room: "rooms (exec ?evs initServer) ''room1'' = Some ?room"
    by (simp add: run_defs game_constants)
  show ?thesis using adm room active_iff_both_slots [OF adm room] by simp
qed

text \<open>
  C1, as the specification states it, fails: connection A joins and then sends a second
  join. The handler has no membership test, so A is appended to the player list again,
  takes the free right slot, and the game starts.
\<close>

theorem second_join_counterexample:
  "playerRooms (exec [JoinGame ''A'' 0 0] initServer) ''A'' = Some ''room1''
   \<and> map_option (players \<circ> gameState) (rooms (exec [JoinGame ''A'' 0 0] initServer) ''room1'')
       = Some [''A'']
   \<and> map_option (players \<circ> gameState)
        (rooms (exec [JoinGame ''A'' 0 0, JoinGame ''A'' 0 0] initServer) ''room1'')
       = Some [''A'', ''A'']
   \<and> map_option (playerId \<circ> right \<circ> paddles \<circ> gameState)
        (rooms (exec [JoinGame ''A'' 0 0] initServer) ''room1'') = Some None
   \<and> map_option (playerId \<circ> right \<circ> paddles \<circ> gameState)
        (rooms (exec [JoinGame ''A'' 0 0, JoinGame ''A'' 0 0] initServer) ''room1'')
       = Some (Some ''A'')
   \<and> map_option (gameActive \<circ> gameState)
        (rooms (exec [JoinGame ''A'' 0 0] initServer) ''room1'') = Some False
   \<and> map_option (gameActive \<circ> gameState)
        (rooms (exec [JoinGame ''A'' 0 0, JoinGame ''A'' 0 0] initServer) ''room1'') = Some True"
  by (simp add: run_defs)

text \<open>
  C1, amended. A second join of a registered connection raises no error and leaves the
  reverse index as it is, but it is not a no-op: the connection is appended to the
  player list once more, it takes the first slot without owner (left before right) if
  there is one, and when the list then has exactly two entries the room becomes active,
  the tick loop starts and \<^verbatim>\<open>gameStart\<close> is broadcast. The messages are the usual ones
  of a join.
\<close>

theorem second_join_effect:
  assumes room: "rooms s ''room1'' = Some room"
    and mem: "sid \<in> set (players (gameState room))"
    and idx: "playerRooms s sid = Some ''room1''"
  shows "let gs = gameState room;
             leftFree = falsy (playerId (left (paddles gs)));
             rightFree = falsy (playerId (right (paddles gs)));
             ps' = (if leftFree then (paddles gs)\<lparr>left := (left (paddles gs))\<lparr>playerId := Some sid\<rparr>\<rparr>
                    else if rightFree
                    then (paddles gs)\<lparr>right := (right (paddles gs))\<lparr>playerId := Some sid\<rparr>\<rparr>
                    else paddles gs);
             start = (length (players gs) = 1);
             gs' = gs\<lparr>players := players gs @ [sid], paddles := ps',
                      gameActive := (gameActive gs \<or> start)\<rparr>
         in joinGame sid r1 r2 s =
              (s\<lparr>rooms := (rooms s)(''room1'' \<mapsto>
                     room\<lparr>gameState := gs', gameLoop := (gameLoop room \<or> start)\<rparr>)\<rparr>,
               (if leftFree then [ToSocket sid (PaddleAssignment SLeft)]
                else if rightFree then [ToSocket sid (PaddleAssignment SRight)] else [])
               @ (if start then [ToRoom ''room1'' GameStart] else [])
               @ [ToSocket sid (GameStateMsg gs')])
            \<and> players gs' \<noteq> players gs"
proof -
  have same: "(playerRooms s)(sid \<mapsto> ''room1'') = playerRooms s"
    using idx by (rule map_upd_triv)
  show ?thesis
    using room
    by (simp add: joinGame_def startGameLoop_def assignPaddle_def Let_def same)
qed

theorem second_join_effect_witness:
  "rooms (exec [JoinGame ''A'' 0 0] initServer) ''room1''
     = Some \<lparr>room_id = ''room1'',
          gameState = \<lparr>ball = \<lparr>ball_x = 400, ball_y = 200, ball_dx = - 4, ball_dy = - 4\<rparr>,
            paddles = \<lparr>left = \<lparr>paddle_y = 160, playerId = Some ''A''\<rparr>,
                       right = \<lparr>paddle_y = 160, playerId = None\<rparr>\<rparr>,
            score = \<lparr>score_left = 0, score_right = 0\<rparr>,
            gameActive = False, players = [''A'']\<rparr>,
          gameLoop = False\<rparr>
   \<and> ''A'' \<in> set [''A'']
   \<and> playerRooms (exec [JoinGame ''A'' 0 0] initServer) ''A'' = Some ''room1''
   \<and> rooms (fst (joinGame ''A'' 0 0 (exec [JoinGame ''A'' 0 0] initServer))) ''room1''
     = Some \<lparr>room_id = ''room1'',
          gameState = \<lparr>ball = \<lparr>ball_x = 400, ball_y = 200, ball_dx = - 4, ball_dy = - 4\<rparr>,
            paddles = \<lparr>left = \<lparr>paddle_y = 160, playerId = Some ''A''\<rparr>,
                       right = \<lparr>paddle_y = 160, playerId = Some ''A''\<rparr>\<rparr>,
            score = \<lparr>score_left = 0, score_right = 0\<rparr>,
            gameActive = True, players = [''A'', ''A'']\<rparr>,
          gameLoop = True\<rparr>"
proof -
  let ?s = "exec [JoinGame ''A'' 0 0] initServer"
  let ?room = "\<lparr>room_id = ''room1'',
          gameState = \<lparr>ball = \<lparr>ball_x = 400, ball_y = 200, ball_dx = - 4, ball_dy = - 4\<rparr>,
            paddles = \<lparr>left = \<lparr>paddle_y = 160, playerId = Some ''A''\<rparr>,
                       right = \<lparr>paddle_y = 160, playerId = None\<rparr>\<rparr>,
            score = \<lparr>score_left = 0, score_right = 0\<rparr>,
            gameActive = False, players = [''A'']\<rparr>,
          gameLoop = False\<rparr>"
  have room: "rooms ?s ''room1'' = Some ?room" by (simp add: run_defs game_constants)
  have mem: "''A'' \<in> set (players (gameState ?room))" by simp
  have idx: "playerRooms ?s ''A'' = Some ''room1''" by (simp add: run_defs)
  show ?thesis
    using room idx second_join_effect [OF room mem idx, of 0 0]
    by (simp add: Let_def falsy_def)
qed

section \<open>Paddle offsets\<close>

lemma movedPaddleY_bounded:
  "0 \<le> y \<Longrightarrow> y \<le> GAME_HEIGHT - PADDLE_HEIGHT \<Longrightarrow>
   0 \<le> movedPaddleY d y \<and> movedPaddleY d y \<le> GAME_HEIGHT - PADDLE_HEIGHT"
  by (simp add: movedPaddleY_def game_constants)

lemma movePaddle_bounded: "paddles_bounded gs \<Longrightarrow> paddles_bounded (movePaddle sid d gs)"
  by (cases "ownedPaddle sid (paddles gs)")
     (auto simp: paddles_bounded_def movePaddle_def setPaddleY_frame paddleOf_def
        movedPaddleY_bounded split: side.splits)

lemma rooms_bounded_step:
  assumes "rooms_bounded s"
  shows "rooms_bounded (fst (step e s))"
  unfolding rooms_bounded_def
proof (intro allI impI)
  fix rid r' assume r': "rooms (fst (step e s)) rid = Some r'"
  have old: "paddles_bounded (gameState r)" if "rooms s rid = Some r" for r
    using assms that by (auto simp: rooms_bounded_def)
  show "paddles_bounded (gameState r')"
  proof (cases e)
    case (JoinGame sid r1 r2)
    with r' have "rooms (fst (joinGame sid r1 r2 s)) rid = Some r'" by simp
    from joinGame_rooms [OF this] old show ?thesis
      by (auto simp: paddles_bounded_def assignPaddle_frame createGameState_def game_constants)
  next
    case (PaddleMove sid d)
    with r' old show ?thesis
      by (auto simp: paddleMove_rooms movePaddle_bounded split: if_splits)
  next
    case (Disconnect sid)
    with r' have "rooms (fst (disconnect sid s)) rid = Some r'" by simp
    from disconnect_rooms [OF this] old show ?thesis
      by (auto simp: paddles_bounded_def removePlayer_frame)
  next
    case (Tick roomId r1 r2)
    with r' old show ?thesis
      by (auto simp: gameLoopTick_rooms paddles_bounded_def updateBall_keeps split: if_splits)
  qed
qed

lemma rooms_bounded_exec: "rooms_bounded s \<Longrightarrow> rooms_bounded (exec evs s)"
  by (induction evs arbitrary: s) (simp_all add: rooms_bounded_step)

text \<open>
  C5. In every state reached from the initial server by any sequence of events, so in
  particular by any sequence of paddle moves on a freshly created game state, both
  paddle offsets of every room lie in \<open>[0, GAME_HEIGHT - PADDLE_HEIGHT]\<close>.
\<close>

theorem paddle_offsets_bounded:
  assumes "rooms (exec evs initServer) rid = Some room"
  shows "0 \<le> paddle_y (left (paddles (gameState room)))
         \<and> paddle_y (left (paddles (gameState room))) \<le> GAME_HEIGHT - PADDLE_HEIGHT
         \<and> 0 \<le> paddle_y (right (paddles (gameState room)))
         \<and> paddle_y (right (paddles (gameState room))) \<le> GAME_HEIGHT - PADDLE_HEIGHT"
proof -
  have "rooms_bounded initServer" by (simp add: rooms_bounded_def initServer_def)
  then have "rooms_bounded (exec evs initServer)" by (rule rooms_bounded_exec)
  with assms show ?thesis by (auto simp: rooms_bounded_def paddles_bounded_def)
qed

theorem paddle_offsets_bounded_witness:
  "rooms (exec (JoinGame ''A'' 0 0 # replicate 33 (PaddleMove ''A'' Up)) initServer) ''room1''
     = Some \<lparr>room_id = ''room1'',
          gameState = \<lparr>ball = \<lparr>ball_x = 400, ball_y = 200, ball_dx = - 4, ball_dy = - 4\<rparr>,
            paddles = \<lparr>left = \<lparr>paddle_y = 0, playerId = Some ''A''\<rparr>,
                       right = \<lparr>paddle_y = 160, playerId = None\<rparr>\<rparr>,
            score = \<lparr>score_left = 0, score_right = 0\<rparr>,
            gameActive = False, players = [''A'']\<rparr>,
          gameLoop = False\<rparr>
   \<and> (0::rat) \<le> 0 \<and> (0::rat) \<le> GAME_HEIGHT - PADDLE_HEIGHT
   \<and> (0::rat) \<le> 160 \<and> (160::rat) \<le> GAME_HEIGHT - PADDLE_HEIGHT"
proof -
  let ?room = "\<lparr>room_id = ''room1'',
          gameState = \<lparr>ball = \<lparr>ball_x = 400, ball_y = 200, ball_dx = - 4, ball_dy = - 4\<rparr>,
            paddles = \<lparr>left = \<lparr>paddle_y = 0, playerId = Some ''A''\<rparr>,
                       right = \<lparr>paddle_y = 160, playerId = None\<rparr>\<rparr>,
            score = \<lparr>score_left = 0, score_right = 0\<rparr>,
            gameActive = False, players = [''A'']\<rparr>,
          gameLoop = False\<rparr>"
  have room: "rooms (exec (JoinGame ''A'' 0 0 # replicate 33 (PaddleMove ''A'' Up)) initServer)
      ''room1'' = Some ?room"
    by (simp add: run_defs game_constants eval_nat_numeral)
  show ?thesis using room paddle_offsets_bounded [OF room] by simp
qed

text \<open>
  C10. A move request of a connection that owns a paddle in its room always broadcasts
  one \<^verbatim>\<open>paddleUpdate\<close> to the room, with the side of that paddle and its offset after
  the request, whether or not the offset changed.
\<close>

theorem paddleMove_always_broadcasts:
  assumes idx: "playerRooms s sid = Some roomId" and ne: "roomId \<noteq> []"
    and room: "rooms s roomId = Some room"
    and own: "playerId (left (paddles (gameState room))) = Some sid
              \<or> playerId (right (paddles (gameState room))) = Some sid"
  shows "\<exists>room' sd.
           sd = (if playerId (left (paddles (gameState room))) = Some sid then SLeft else SRight)
           \<and> rooms (fst (paddleMove sid d s)) roomId = Some room'
           \<and> paddle_y (paddleOf sd (paddles (gameState room')))
               = movedPaddleY d (paddle_y (paddleOf sd (paddles (gameState room))))
           \<and> snd (paddleMove sid d s)
               = [ToRoom roomId (PaddleUpdate sd (paddle_y (paddleOf sd (paddles (gameState room')))))]"
proof -
  let ?sd = "if playerId (left (paddles (gameState room))) = Some sid then SLeft else SRight"
  from own have o: "ownedPaddle sid (paddles (gameState room)) = Some ?sd"
    by (auto simp: ownedPaddle_def)
  have l: "playerId (left (paddles (movePaddle sid d (gameState room))))
      = playerId (left (paddles (gameState room)))"
    by (simp add: movePaddle_frame)
  have y: "paddle_y (paddleOf ?sd (paddles (movePaddle sid d (gameState room))))
      = movedPaddleY d (paddle_y (paddleOf ?sd (paddles (gameState room))))"
    unfolding movePaddle_def o by (simp add: paddleOf_setPaddleY)
  have "rooms (fst (paddleMove sid d s)) roomId
      = Some (room\<lparr>gameState := movePaddle sid d (gameState room)\<rparr>)"
    using idx ne room by (simp add: paddleMove_rooms)
  moreover have "snd (paddleMove sid d s)
      = [ToRoom roomId (PaddleUpdate ?sd
           (paddle_y (paddleOf ?sd (paddles (movePaddle sid d (gameState room))))))]"
    using idx ne room o l by (simp add: paddleMove_def Let_def)
  ultimately show ?thesis using y by simp
qed

theorem paddleMove_always_broadcasts_witness:
  "playerRooms (exec (JoinGame ''A'' 0 0 # replicate 32 (PaddleMove ''A'' Up)) initServer) ''A''
     = Some ''room1''
   \<and> rooms (exec (JoinGame ''A'' 0 0 # replicate 32 (PaddleMove ''A'' Up)) initServer) ''room1''
     = Some \<lparr>room_id = ''room1'',
          gameState = \<lparr>ball = \<lparr>ball_x = 400, ball_y = 200, ball_dx = - 4, ball_dy = - 4\<rparr>,
            paddles = \<lparr>left = \<lparr>paddle_y = 0, playerId = Some ''A''\<rparr>,
                       right = \<lparr>paddle_y = 160, playerId = None\<rparr>\<rparr>,
            score = \<lparr>score_left = 0, score_right = 0\<rparr>,
            gameActive = False, players = [''A'']\<rparr>,
          gameLoop = False\<rparr>
   \<and> snd (paddleMove ''A'' Up
        (exec (JoinGame ''A'' 0 0 # replicate 32 (PaddleMove ''A'' Up)) initServer))
     = [ToRoom ''room1'' (PaddleUpdate SLeft 0)]"
proof -
  let ?s = "exec (JoinGame ''A'' 0 0 # replicate 32 (PaddleMove ''A'' Up)) initServer"
  let ?room = "\<lparr>room_id = ''room1'',
          gameState = \<lparr>ball = \<lparr>ball_x = 400, ball_y = 200, ball_dx = - 4, ball_dy = - 4\<rparr>,
            paddles = \<lparr>left = \<lparr>paddle_y = 0, playerId = Some ''A''\<rparr>,
                       right = \<lparr>paddle_y = 160, playerId = None\<rparr>\<rparr>,
            score = \<lparr>score_left = 0, score_right = 0\<rparr>,
            gameActive = False, players = [''A'']\<rparr>,
          gameLoop = False\<rparr>"
  have idx: "playerRooms ?s ''A'' = Some ''room1''"
    by (simp add: run_defs game_constants eval_nat_numeral)
  have ne: "''room1'' \<noteq> []" by simp
  have room: "rooms ?s ''room1'' = Some ?room"
    by (simp add: run_defs game_constants eval_nat_numeral)
  have own: "playerId (left (paddles (gameState ?room))) = Some ''A''
      \<or> playerId (right (paddles (gameState ?room))) = Some ''A''" by simp
  show ?thesis
    using idx room paddleMove_always_broadcasts [OF idx ne room own, of Up]
    by (auto simp: paddleOf_def movedPaddleY_def)
qed

section \<open>Disconnects\<close>

text \<open>
  C6. When one of the two distinct paddle owners of an active room disconnects and the
  player list does not become empty, its slot loses its owner, the room is no longer
  active, the timer is cleared (a tick no longer does anything), \<^verbatim>\<open>playerDisconnected\<close>
  is broadcast, and the other paddle keeps its owner and its offset.
\<close>

theorem disconnect_of_paddle_owner:
  assumes idx: "playerRooms s sid = Some roomId" and ne: "roomId \<noteq> []"
    and room: "rooms s roomId = Some room"
    and active: "gameActive (gameState room)"
    and l: "playerId (left (paddles (gameState room))) = Some a"
    and r: "playerId (right (paddles (gameState room))) = Some b"
    and ab: "a \<noteq> b" and sid: "sid = a \<or> sid = b"
    and rest: "filter (\<lambda>i. i \<noteq> sid) (players (gameState room)) \<noteq> []"
  shows "disconnect sid s =
           (s\<lparr>rooms := (rooms s)(roomId \<mapsto>
                  room\<lparr>gameState := (gameState room)
                         \<lparr>players := filter (\<lambda>i. i \<noteq> sid) (players (gameState room)),
                          paddles :=
                            (if sid = a
                             then (paddles (gameState room))
                                    \<lparr>left := (left (paddles (gameState room)))\<lparr>playerId := None\<rparr>\<rparr>
                             else (paddles (gameState room))
                                    \<lparr>right := (right (paddles (gameState room)))\<lparr>playerId := None\<rparr>\<rparr>),
                          gameActive := False\<rparr>,
                       gameLoop := False\<rparr>),
               playerRooms := (playerRooms s)(sid := None)\<rparr>,
            [ToRoom roomId PlayerDisconnected])
         \<and> gameLoopTick roomId r1 r2 (fst (disconnect sid s)) = (fst (disconnect sid s), [])"
proof -
  have "removePlayer sid (gameState room) =
      (gameState room)
        \<lparr>players := filter (\<lambda>i. i \<noteq> sid) (players (gameState room)),
         paddles :=
           (if sid = a
            then (paddles (gameState room))
                   \<lparr>left := (left (paddles (gameState room)))\<lparr>playerId := None\<rparr>\<rparr>
            else (paddles (gameState room))
                   \<lparr>right := (right (paddles (gameState room)))\<lparr>playerId := None\<rparr>\<rparr>)\<rparr>"
    using l r ab sid by (auto simp: removePlayer_def Let_def)
  then show ?thesis
    by (simp add: disconnect_remaining [OF idx ne room rest] gameLoopTick_def)
qed

theorem disconnect_of_paddle_owner_witness:
  "playerRooms (exec [JoinGame ''A'' 0 0, JoinGame ''B'' 0 0] initServer) ''A'' = Some ''room1''
   \<and> rooms (exec [JoinGame ''A'' 0 0, JoinGame ''B'' 0 0] initServer) ''room1''
     = Some \<lparr>room_id = ''room1'',
          gameState = \<lparr>ball = \<lparr>ball_x = 400, ball_y = 200, ball_dx = - 4, ball_dy = - 4\<rparr>,
            paddles = \<lparr>left = \<lparr>paddle_y = 160, playerId = Some ''A''\<rparr>,
                       right = \<lparr>paddle_y = 160, playerId = Some ''B''\<rparr>\<rparr>,
            score = \<lparr>score_left = 0, score_right = 0\<rparr>,
            gameActive = True, players = [''A'', ''B'']\<rparr>,
          gameLoop = True\<rparr>
   \<and> filter (\<lambda>i. i \<noteq> ''A'') [''A'', ''B''] \<noteq> []
   \<and> rooms (fst (disconnect ''A'' (exec [JoinGame ''A'' 0 0, JoinGame ''B'' 0 0] initServer)))
        ''room1''
     = Some \<lparr>room_id = ''room1'',
          gameState = \<lparr>ball = \<lparr>ball_x = 400, ball_y = 200, ball_dx = - 4, ball_dy = - 4\<rparr>,
            paddles = \<lparr>left = \<lparr>paddle_y = 160, playerId = None\<rparr>,
                       right = \<lparr>paddle_y = 160, playerId = Some ''B''\<rparr>\<rparr>,
            score = \<lparr>score_left = 0, score_right = 0\<rparr>,
            gameActive = False, players = [''B'']\<rparr>,
          gameLoop = False\<rparr>
   \<and> snd (disconnect ''A'' (exec [JoinGame ''A'' 0 0, JoinGame ''B'' 0 0] initServer))
     = [ToRoom ''room1'' PlayerDisconnected]"
proof -
  let ?s = "exec [JoinGame ''A'' 0 0, JoinGame ''B'' 0 0] initServer"
  let ?room = "\<lparr>room_id = ''room1'',
          gameState = \<lparr>ball = \<lparr>ball_x = 400, ball_y = 200, ball_dx = - 4, ball_dy = - 4\<rparr>,
            paddles = \<lparr>left = \<lparr>paddle_y = 160, playerId = Some ''A''\<rparr>,
                       right = \<lparr>paddle_y = 160, playerId = Some ''B''\<rparr>\<rparr>,
            score = \<lparr>score_left = 0, score_right = 0\<rparr>,
            gameActive = True, players = [''A'', ''B'']\<rparr>,
          gameLoop = True\<rparr>"
  have idx: "playerRooms ?s ''A'' = Some ''room1''" by (simp add: run_defs)
  have ne: "''room1'' \<noteq> []" by simp
  have room: "rooms ?s ''room1'' = Some ?room" by (simp add: run_defs game_constants)
  have active: "gameActive (gameState ?room)" by simp
  have l: "playerId (left (paddles (gameState ?room))) = Some ''A''" by simp
  have r: "playerId (right (paddles (gameState ?room))) = Some ''B''" by simp
  have ab: "''A'' \<noteq> ''B''" by simp
  have sid: "''A'' = ''A'' \<or> ''A'' = ''B''" by simp
  have rest: "filter (\<lambda>i. i \<noteq> ''A'') (players (gameState ?room)) \<noteq> []" by simp
  show ?thesis
    using idx room disconnect_of_paddle_owner [OF idx ne room active l r ab sid rest, of 0 0]
    by simp
qed

text \<open>
  C7. When a disconnect empties the player list, the room identifier is no longer in
  \<^verbatim>\<open>rooms\<close> and no tick acts on it; a later join creates the room again from
  \<^verbatim>\<open>createGameState\<close>, with the joiner as its only player and left paddle owner.
\<close>

theorem last_disconnect_destroys_room:
  assumes idx: "playerRooms s sid = Some roomId" and ne: "roomId \<noteq> []"
    and room: "rooms s roomId = Some room"
    and last: "filter (\<lambda>i. i \<noteq> sid) (players (gameState room)) = []"
  shows "rooms (fst (disconnect sid s)) roomId = None
         \<and> gameLoopTick roomId q1 q2 (fst (disconnect sid s)) = (fst (disconnect sid s), [])
         \<and> (roomId = ''room1'' \<longrightarrow>
              rooms (fst (joinGame sid' r1 r2 (fst (disconnect sid s)))) ''room1''
                = Some \<lparr>room_id = ''room1'',
                    gameState = (createGameState r1 r2)
                      \<lparr>players := [sid'],
                       paddles := (paddles (createGameState r1 r2))
                         \<lparr>left := (left (paddles (createGameState r1 r2)))\<lparr>playerId := Some sid'\<rparr>\<rparr>\<rparr>,
                    gameLoop = False\<rparr>)"
proof -
  have gone: "rooms (fst (disconnect sid s)) roomId = None"
    by (simp add: disconnect_last [OF idx ne room last])
  have fresh: "rooms (fst (joinGame sid' r1 r2 t)) ''room1''
      = Some \<lparr>room_id = ''room1'',
          gameState = (createGameState r1 r2)
            \<lparr>players := [sid'],
             paddles := (paddles (createGameState r1 r2))
               \<lparr>left := (left (paddles (createGameState r1 r2)))\<lparr>playerId := Some sid'\<rparr>\<rparr>\<rparr>,
          gameLoop = False\<rparr>" if "rooms t ''room1'' = None" for t
    using that
    by (simp add: joinGame_room1 Let_def assignPaddle_def falsy_def createGameState_def)
  from gone fresh show ?thesis by (auto simp: gameLoopTick_def)
qed

theorem last_disconnect_destroys_room_witness:
  "playerRooms (exec [JoinGame ''A'' 1 1, Tick ''room1'' 0 0] initServer) ''A'' = Some ''room1''
   \<and> map_option (players \<circ> gameState)
        (rooms (exec [JoinGame ''A'' 1 1, Tick ''room1'' 0 0] initServer) ''room1'') = Some [''A'']
   \<and> filter (\<lambda>i. i \<noteq> ''A'') [''A''] = []
   \<and> rooms (fst (disconnect ''A'' (exec [JoinGame ''A'' 1 1, Tick ''room1'' 0 0] initServer)))
        ''room1'' = None
   \<and> rooms (fst (joinGame ''B'' 0 0
        (fst (disconnect ''A'' (exec [JoinGame ''A'' 1 1, Tick ''room1'' 0 0] initServer)))))
        ''room1''
     = Some \<lparr>room_id = ''room1'',
          gameState = \<lparr>ball = \<lparr>ball_x = 400, ball_y = 200, ball_dx = - 4, ball_dy = - 4\<rparr>,
            paddles = \<lparr>left = \<lparr>paddle_y = 160, playerId = Some ''B''\<rparr>,
                       right = \<lparr>paddle_y = 160, playerId = None\<rparr>\<rparr>,
            score = \<lparr>score_left = 0, score_right = 0\<rparr>,
            gameActive = False, players = [''B'']\<rparr>,
          gameLoop = False\<rparr>"
proof -
  let ?s = "exec [JoinGame ''A'' 1 1, Tick ''room1'' 0 0] initServer"
  obtain room where room: "rooms ?s ''room1'' = Some room"
    and ps: "players (gameState room) = [''A'']"
    by (simp add: run_defs)
  have idx: "playerRooms ?s ''A'' = Some ''room1''" by (simp add: run_defs)
  have ne: "''room1'' \<noteq> []" by simp
  have last: "filter (\<lambda>i. i \<noteq> ''A'') (players (gameState room)) = []" by (simp add: ps)
  show ?thesis
    using idx room ps last_disconnect_destroys_room [OF idx ne room last, of 0 0 "''B''" 0 0]
    by (simp add: createGameState_def randomSpeed_def game_constants)
qed

section \<open>Scoring\<close>

lemma updateBall_scores_right:
  assumes "integrated_x gs < 0"
  shows "score (updateBall r1 r2 gs) = (score gs)\<lparr>score_right := score_right (score gs) + 1\<rparr>"
    and "ball (updateBall r1 r2 gs) = ball (resetBall r1 r2 gs)"
  using assms
  by (simp_all add: updateBall_def scoring_def collisions_keep_x integrated_x_def resetBall_def)

lemma updateBall_scores_left:
  assumes "integrated_x gs > GAME_WIDTH"
  shows "score (updateBall r1 r2 gs) = (score gs)\<lparr>score_left := score_left (score gs) + 1\<rparr>"
    and "ball (updateBall r1 r2 gs) = ball (resetBall r1 r2 gs)"
  using assms
  by (simp_all add: updateBall_def scoring_def collisions_keep_x integrated_x_def resetBall_def
      GAME_WIDTH_def)

lemma updateBall_no_score:
  assumes "0 \<le> integrated_x gs" "integrated_x gs \<le> GAME_WIDTH"
  shows "score (updateBall r1 r2 gs) = score gs"
  using assms
  by (simp add: updateBall_def scoring_def collisions_keep_x integrated_x_def)

lemma resetBall_ball:
  "ball (resetBall r1 r2 gs) =
     \<lparr>ball_x = GAME_WIDTH / 2, ball_y = GAME_HEIGHT / 2,
      ball_dx = (if r1 > 1 / 2 then BALL_SPEED else - BALL_SPEED),
      ball_dy = (if r2 > 1 / 2 then BALL_SPEED else - BALL_SPEED)\<rparr>"
  by (simp add: resetBall_def randomSpeed_def)

lemma updateBall_score_mono:
  "score_left (score gs) \<le> score_left (score (updateBall r1 r2 gs))
   \<and> score_right (score gs) \<le> score_right (score (updateBall r1 r2 gs))"
  by (simp add: updateBall_def scoring_def resetBall_def)

lemma step_score_mono:
  assumes r: "rooms s rid = Some r" and r': "rooms (fst (step e s)) rid = Some r'"
  shows "score_left (score (gameState r)) \<le> score_left (score (gameState r'))
         \<and> score_right (score (gameState r)) \<le> score_right (score (gameState r'))"
proof (cases e)
  case (JoinGame sid r1 r2)
  with r' have "rooms (fst (joinGame sid r1 r2 s)) rid = Some r'" by simp
  from joinGame_rooms [OF this] r show ?thesis
    by (auto simp: assignPaddle_frame)
next
  case (PaddleMove sid d)
  with r r' show ?thesis
    by (auto simp: paddleMove_rooms movePaddle_frame split: if_splits)
next
  case (Disconnect sid)
  with r' have "rooms (fst (disconnect sid s)) rid = Some r'" by simp
  from disconnect_rooms [OF this] r show ?thesis
    by (auto simp: removePlayer_frame)
next
  case (Tick roomId r1 r2)
  with r r' show ?thesis
    using updateBall_score_mono [of "gameState r" r1 r2]
    by (auto simp: gameLoopTick_rooms split: if_splits)
qed

text \<open>
  C4. If the ball's \<open>x\<close> after integration is negative, exactly the right score goes up
  by one and the ball is reset; if it exceeds the board width, exactly the left score
  goes up by one and the ball is reset. The reset puts the ball at the centre, with
  \<open>dx\<close> and \<open>dy\<close> of magnitude \<open>BALL_SPEED\<close>, the sign of each decided by its own
  draw. No physics step and no handler ever lowers a score of a room.
\<close>

theorem scoring_and_reset:
  "(integrated_x gs < 0 \<longrightarrow>
      score (updateBall r1 r2 gs) = (score gs)\<lparr>score_right := score_right (score gs) + 1\<rparr>
      \<and> ball (updateBall r1 r2 gs) = ball (resetBall r1 r2 gs))
   \<and> (integrated_x gs > GAME_WIDTH \<longrightarrow>
      score (updateBall r1 r2 gs) = (score gs)\<lparr>score_left := score_left (score gs) + 1\<rparr>
      \<and> ball (updateBall r1 r2 gs) = ball (resetBall r1 r2 gs))
   \<and> ball (resetBall r1 r2 gs) =
       \<lparr>ball_x = GAME_WIDTH / 2, ball_y = GAME_HEIGHT / 2,
        ball_dx = (if r1 > 1 / 2 then BALL_SPEED else - BALL_SPEED),
        ball_dy = (if r2 > 1 / 2 then BALL_SPEED else - BALL_SPEED)\<rparr>
   \<and> \<bar>ball_dx (ball (resetBall r1 r2 gs))\<bar> = BALL_SPEED
   \<and> \<bar>ball_dy (ball (resetBall r1 r2 gs))\<bar> = BALL_SPEED
   \<and> score (resetBall r1 r2 gs) = score gs
   \<and> score_left (score gs) \<le> score_left (score (updateBall r1 r2 gs))
   \<and> score_right (score gs) \<le> score_right (score (updateBall r1 r2 gs))
   \<and> (\<forall>rid r r'. rooms s rid = Some r \<and> rooms (fst (step e s)) rid = Some r' \<longrightarrow>
         score_left (score (gameState r)) \<le> score_left (score (gameState r'))
         \<and> score_right (score (gameState r)) \<le> score_right (score (gameState r')))"
proof -
  have right_scores: "integrated_x gs < 0 \<longrightarrow>
      score (updateBall r1 r2 gs) = (score gs)\<lparr>score_right := score_right (score gs) + 1\<rparr>
      \<and> ball (updateBall r1 r2 gs) = ball (resetBall r1 r2 gs)"
    by (simp add: updateBall_scores_right)
  have left_scores: "integrated_x gs > GAME_WIDTH \<longrightarrow>
      score (updateBall r1 r2 gs) = (score gs)\<lparr>score_left := score_left (score gs) + 1\<rparr>
      \<and> ball (updateBall r1 r2 gs) = ball (resetBall r1 r2 gs)"
    by (simp add: updateBall_scores_left)
  have dy: "\<bar>ball_dy (ball (resetBall r1 r2 gs))\<bar> = BALL_SPEED"
    by (simp add: resetBall_def randomSpeed_abs)
  have keep: "score (resetBall r1 r2 gs) = score gs"
    by (simp add: resetBall_def)
  have steps: "\<forall>rid r r'. rooms s rid = Some r \<and> rooms (fst (step e s)) rid = Some r' \<longrightarrow>
         score_left (score (gameState r)) \<le> score_left (score (gameState r'))
         \<and> score_right (score (gameState r)) \<le> score_right (score (gameState r'))"
    using step_score_mono by blast
  show ?thesis
    by (intro conjI)
       (rule right_scores left_scores resetBall_ball resetBall_dx dy keep steps
          conjunct1 [OF updateBall_score_mono] conjunct2 [OF updateBall_score_mono])+
qed

theorem scoring_and_reset_witness:
  "integrated_x leftOut < 0
   \<and> score (updateBall 1 0 leftOut) = \<lparr>score_left = 0, score_right = 1\<rparr>
   \<and> ball (updateBall 1 0 leftOut) = \<lparr>ball_x = 400, ball_y = 200, ball_dx = 4, ball_dy = - 4\<rparr>
   \<and> integrated_x rightOut > GAME_WIDTH
   \<and> score (updateBall 0 1 rightOut) = \<lparr>score_left = 1, score_right = 0\<rparr>
   \<and> ball (updateBall 0 1 rightOut) = \<lparr>ball_x = 400, ball_y = 200, ball_dx = - 4, ball_dy = 4\<rparr>
   \<and> map_option (score \<circ> gameState)
        (rooms (exec [JoinGame ''A'' 0 0, JoinGame ''B'' 0 0] initServer) ''room1'')
       = Some \<lparr>score_left = 0, score_right = 0\<rparr>
   \<and> map_option (score \<circ> gameState)
        (rooms (fst (step (Tick ''room1'' 0 0)
           (exec [JoinGame ''A'' 0 0, JoinGame ''B'' 0 0] initServer))) ''room1'')
       = Some \<lparr>score_left = 0, score_right = 0\<rparr>"
proof -
  let ?s = "exec [JoinGame ''A'' 0 0, JoinGame ''B'' 0 0] initServer"
  have l: "integrated_x leftOut < 0" by (simp add: integrated_x_def leftOut_def)
  have r: "integrated_x rightOut > GAME_WIDTH"
    by (simp add: integrated_x_def rightOut_def GAME_WIDTH_def)
  obtain a where a: "rooms ?s ''room1'' = Some a"
    and sa: "score (gameState a) = \<lparr>score_left = 0, score_right = 0\<rparr>"
    by (simp add: run_defs)
  obtain b where b: "rooms (fst (step (Tick ''room1'' 0 0) ?s)) ''room1'' = Some b"
    and sb: "score (gameState b) = \<lparr>score_left = 0, score_right = 0\<rparr>"
    by (simp add: run_defs updateBall_def scoring_def moveBall_def wallCollision_def
        leftPaddleCollision_def rightPaddleCollision_def game_constants)
  show ?thesis
    using l r a b sa sb
      scoring_and_reset [of leftOut 1 0 ?s "Tick ''room1'' 0 0"]
      scoring_and_reset [of rightOut 0 1 ?s "Tick ''room1'' 0 0"]
    by (simp add: leftOut_def rightOut_def createGameState_def game_constants)
qed

end
